theory Spec2Isabelle
  imports Main "HOL-Library.Word"
begin

section \<open>The heyVR publishing script\<close>

text \<open>
  The script \<^verbatim>\<open>src/index.js\<close> is one procedure, \<^verbatim>\<open>main\<close>: it parses the command
  line, checks its preconditions, zips a directory and posts the archive. The model below
  follows it statement by statement. A JavaScript string is a list of characters; the
  operators \<^verbatim>\<open>||\<close>, \<^verbatim>\<open>&&\<close> and \<^verbatim>\<open>!\<close> work on the values the script applies them to:
  \<^verbatim>\<open>undefined\<close>, booleans, strings and a number.
\<close>

subsection \<open>JavaScript values and operators\<close>

datatype jsval = JUndefined | JBool bool | JStr string | JNum int

text \<open>
  \<^verbatim>\<open>ToBoolean\<close>: \<^verbatim>\<open>undefined\<close>, \<^verbatim>\<open>false\<close>, the empty string and zero are falsy. The only
  number the script puts under such a test is the literal \<^verbatim>\<open>1\<close>.
\<close>

fun truthy :: "jsval \<Rightarrow> bool" where
  "truthy JUndefined = False"
| "truthy (JBool b) = b"
| "truthy (JStr s) = (s \<noteq> [])"
| "truthy (JNum n) = (n \<noteq> 0)"

text \<open>\<^verbatim>\<open>a || b\<close> and \<^verbatim>\<open>a && b\<close> return one of their operands, not a boolean.\<close>

definition js_or :: "jsval \<Rightarrow> jsval \<Rightarrow> jsval" where
  "js_or a b = (if truthy a then a else b)"

definition js_and :: "jsval \<Rightarrow> jsval \<Rightarrow> jsval" where
  "js_and a b = (if truthy a then b else a)"

text \<open>\<^verbatim>\<open>ToString\<close>, as string concatenation applies it.\<close>

fun show_nat :: "nat \<Rightarrow> string" where
  "show_nat n =
     (if n < 10 then [''0123456789'' ! n]
      else show_nat (n div 10) @ [''0123456789'' ! (n mod 10)])"

declare show_nat.simps [simp del]

definition show_int :: "int \<Rightarrow> string" where
  "show_int n = (if n < 0 then CHR ''-'' # show_nat (nat (- n)) else show_nat (nat n))"

fun toString :: "jsval \<Rightarrow> string" where
  "toString JUndefined = ''undefined''"
| "toString (JBool b) = (if b then ''true'' else ''false'')"
| "toString (JStr s) = s"
| "toString (JNum n) = show_int n"

text \<open>A property of an object that may be absent reads as \<^verbatim>\<open>undefined\<close>.\<close>

fun jsv :: "string option \<Rightarrow> jsval" where
  "jsv None = JUndefined"
| "jsv (Some s) = JStr s"

text \<open>
  \<^verbatim>\<open>String.prototype.endsWith(search)\<close> with no end position: the search string is
  compared with the substring that starts at \<^verbatim>\<open>length - search.length\<close>; the result is
  \<^verbatim>\<open>false\<close> when that start is negative.
\<close>

definition endsWith :: "string \<Rightarrow> string \<Rightarrow> bool" where
  "endsWith s search =
     (length search \<le> length s \<and> drop (length s - length search) s = search)"

subsection \<open>The version classifier (lines 123 to 128 of main)\<close>

text \<open>
  \<^verbatim>\<open>
  let version = 'patch';
  if(X.endsWith('.0.0')) { version = 'major'; }
  else if(X.endsWith('.0')) { version = 'minor'; }
  \<close>
  as a function of the string \<open>X\<close> it inspects.
\<close>

definition classify :: "string \<Rightarrow> string" where
  "classify x =
     (if endsWith x ''.0.0'' then ''major''
      else if endsWith x ''.0'' then ''minor''
      else ''patch'')"

subsection \<open>Number.parseInt\<close>

text \<open>
  \<^verbatim>\<open>Number.parseInt(string)\<close> with no radix: leading white space is skipped, one sign is
  read, a prefix \<^verbatim>\<open>0x\<close> or \<^verbatim>\<open>0X\<close> selects radix 16 (radix 10 otherwise), and the longest
  run of digits of that radix is the value; with no digit the result is \<^verbatim>\<open>NaN\<close>. The
  result is a JavaScript number: \<^verbatim>\<open>NaN\<close>, an integer that a double holds, or an infinity.

  The standard's steps are computed here on the inputs where they leave nothing to the
  engine: a string of ASCII characters only (there the white space is TAB, LF, VT, FF, CR
  and SP) whose digit run has at most 20 digits and a value of at most \<open>2 ^ 53\<close> (there the
  double is the integer itself). On every other input (a character outside ASCII, where
  JavaScript's wider white space may apply; a longer or larger digit run, which the engine
  rounds to a double) the result is what the engine returns, a function of the environment.
\<close>

datatype jsnum = NaN | Num int | PlusInfinity | MinusInfinity

definition isASCII :: "char \<Rightarrow> bool" where
  "isASCII c = ((of_char c :: nat) < 128)"

definition isAsciiWhiteSpace :: "char \<Rightarrow> bool" where
  "isAsciiWhiteSpace c =
     (c \<in> set [CHR 0x09, CHR 0x0A, CHR 0x0B, CHR 0x0C, CHR 0x0D, CHR '' ''])"

definition digitValue :: "char \<Rightarrow> nat option" where
  "digitValue c =
     (let n = (of_char c :: nat) in
      if 48 \<le> n \<and> n \<le> 57 then Some (n - 48)
      else if 97 \<le> n \<and> n \<le> 122 then Some (n - 87)
      else if 65 \<le> n \<and> n \<le> 90 then Some (n - 55)
      else None)"

definition isRadixDigit :: "nat \<Rightarrow> char \<Rightarrow> bool" where
  "isRadixDigit R c = (case digitValue c of Some d \<Rightarrow> d < R | None \<Rightarrow> False)"

definition digitsValue :: "nat \<Rightarrow> string \<Rightarrow> nat" where
  "digitsValue R Z =
     foldl (\<lambda>acc c. case digitValue c of Some d \<Rightarrow> acc * R + d | None \<Rightarrow> acc) 0 Z"

definition parseInt :: "(string \<Rightarrow> jsnum) \<Rightarrow> string \<Rightarrow> jsnum" where
  "parseInt engine inputString =
     (let S = dropWhile isAsciiWhiteSpace inputString;
          sign = (if S \<noteq> [] \<and> hd S = CHR ''-'' then - 1 else (1 :: int));
          S = (if S \<noteq> [] \<and> (hd S = CHR ''+'' \<or> hd S = CHR ''-'') then tl S else S);
          stripPrefix = (take 2 S = ''0x'' \<or> take 2 S = ''0X'');
          R = (if stripPrefix then 16 else 10);
          S = (if stripPrefix then drop 2 S else S);
          Z = takeWhile (isRadixDigit R) S
      in if list_all isASCII inputString \<and> length Z \<le> 20
            \<and> digitsValue R Z \<le> 9007199254740992
         then (if Z = [] then NaN else Num (sign * int (digitsValue R Z)))
         else engine inputString)"

subsection \<open>util.parseArgs, as main calls it\<close>

text \<open>
  \<^verbatim>\<open>parseArgs({ options })\<close> is Node's own parser, called with its defaults: strict, no
  positionals, the arguments \<^verbatim>\<open>process.argv.slice(2)\<close>. The option table of \<^verbatim>\<open>main\<close> declares
  four options, all of type \<^verbatim>\<open>string\<close>, none with a short name. The parser throws on an
  unknown option, on a string option with no value, on a value that looks like an option
  (it starts with a dash and is longer than one character) unless it is given inline
  with \<^verbatim>\<open>=\<close>, and on a positional argument. A later occurrence of an option overwrites an
  earlier one.
\<close>

datatype parse_error =
    ERR_PARSE_ARGS_UNKNOWN_OPTION string
  | ERR_PARSE_ARGS_INVALID_OPTION_VALUE string
  | ERR_PARSE_ARGS_UNEXPECTED_POSITIONAL string

definition options :: "string list" where
  "options = [''version'', ''path'', ''gameId'', ''sdkVersion'']"

definition startsWith :: "string \<Rightarrow> string \<Rightarrow> bool" where
  "startsWith s p = (take (length p) s = p)"

definition isLoneShortOption :: "string \<Rightarrow> bool" where
  "isLoneShortOption arg =
     (length arg = 2 \<and> arg ! 0 = CHR ''-'' \<and> arg ! 1 \<noteq> CHR ''-'')"

text \<open>
  \<^verbatim>\<open>-abc\<close>: a group of short options, or a short option with its value. No short option is
  declared, so the first character after the dash names an unknown option either way.
\<close>

definition isShortOptionGroup :: "string \<Rightarrow> bool" where
  "isShortOptionGroup arg =
     (length arg > 2 \<and> arg ! 0 = CHR ''-'' \<and> arg ! 1 \<noteq> CHR ''-'')"

definition isLoneLongOption :: "string \<Rightarrow> bool" where
  "isLoneLongOption arg =
     (length arg > 2 \<and> startsWith arg ''--'' \<and> CHR ''='' \<notin> set (drop 3 arg))"

definition isLongOptionAndValue :: "string \<Rightarrow> bool" where
  "isLongOptionAndValue arg =
     (length arg > 2 \<and> startsWith arg ''--'' \<and> CHR ''='' \<in> set (drop 3 arg))"

definition isOptionLikeValue :: "string \<Rightarrow> bool" where
  "isOptionLikeValue v = (length v > 1 \<and> v ! 0 = CHR ''-'')"

fun parseArgs_loop ::
  "string list \<Rightarrow> (string \<rightharpoonup> string) \<Rightarrow> parse_error + (string \<rightharpoonup> string)" where
  "parseArgs_loop [] vals = Inr vals"
| "parseArgs_loop (arg # remainingArgs) vals =
     (if arg = ''--'' then
        (case remainingArgs of
           [] \<Rightarrow> Inr vals
         | positional # _ \<Rightarrow> Inl (ERR_PARSE_ARGS_UNEXPECTED_POSITIONAL positional))
      else if isLoneShortOption arg \<or> isShortOptionGroup arg then
        Inl (ERR_PARSE_ARGS_UNKNOWN_OPTION (take 2 arg))
      else if isLoneLongOption arg then
        (let longOption = drop 2 arg in
         if longOption \<notin> set options then Inl (ERR_PARSE_ARGS_UNKNOWN_OPTION arg)
         else
           (case remainingArgs of
              [] \<Rightarrow> Inl (ERR_PARSE_ARGS_INVALID_OPTION_VALUE arg)
            | v # rest \<Rightarrow>
                if isOptionLikeValue v then Inl (ERR_PARSE_ARGS_INVALID_OPTION_VALUE arg)
                else parseArgs_loop rest (vals(longOption \<mapsto> v))))
      else if isLongOptionAndValue arg then
        (let longOption = takeWhile (\<lambda>c. c \<noteq> CHR ''='') (drop 2 arg);
             v = drop 1 (dropWhile (\<lambda>c. c \<noteq> CHR ''='') (drop 2 arg)) in
         if longOption \<notin> set options
         then Inl (ERR_PARSE_ARGS_UNKNOWN_OPTION (''--'' @ longOption))
         else parseArgs_loop remainingArgs (vals(longOption \<mapsto> v)))
      else Inl (ERR_PARSE_ARGS_UNEXPECTED_POSITIONAL arg))"

definition parseArgs :: "string list \<Rightarrow> parse_error + (string \<rightharpoonup> string)" where
  "parseArgs args = parseArgs_loop args Map.empty"

subsection \<open>The environment of one run and what a run does\<close>

type_synonym buffer = "8 word list"

datatype field = FieldStr string | FieldFile buffer string | FieldNum jsnum

text \<open>A \<^verbatim>\<open>FormData\<close> is the list of its appended fields, in order.\<close>

type_synonym form = "(string \<times> field) list"

record request =
  req_method :: string
  req_url :: string
  req_data :: form
  req_headers :: "(string \<times> string) list"

record response =
  res_status :: nat
  res_statusText :: string
  res_data :: string

text \<open>
  The promise \<^verbatim>\<open>axios(...)\<close> returns resolves with a response, or rejects with an error,
  whose text is \<^verbatim>\<open>error.toString()\<close> and which carries a response when the server answered
  and none when the request failed on the network, or never settles. While the request
  is sent, axios calls \<^verbatim>\<open>onUploadProgress\<close>, which prints \<^verbatim>\<open>100*e.progress.toFixed(2)\<close>; when
  the event carries no \<^verbatim>\<open>progress\<close> (the total is not known) that is a \<^verbatim>\<open>TypeError\<close> thrown
  from a callback, which nobody catches. The promise of \<^verbatim>\<open>zipDeployFolder\<close> resolves with
  the zip bytes when the output stream ends, rejects when the archiver emits an error, or
  never settles.
\<close>

datatype axios_result =
    Resolved response
  | Rejected string "response option"
  | Pending
  | ProgressThrows

datatype archive_result = Archived buffer | ArchiveError string | ArchivePending

text \<open>
  What a run reads: the arguments after the script name, the file system through
  \<^verbatim>\<open>fs.existsSync\<close>, the variable \<^verbatim>\<open>HEYVR_ACCESS_TOKEN\<close>, the archiver (it yields the zip
  bytes of a directory, emits an error, or does neither), the remote service, and the
  engine's \<^verbatim>\<open>Number.parseInt\<close> where the model does not compute it.

  How a run ends: \<^verbatim>\<open>process.exit(1)\<close> is called after a failed check and in the two
  handlers of the request; an exception nobody catches, and a rejection nobody handles,
  end the process with code 1, as Node does in every version that has \<^verbatim>\<open>util.parseArgs\<close>;
  in every other case nothing sets an exit code, \<^verbatim>\<open>main()\<close> is not awaited, and the process
  ends with code 0 once nothing is left to run. That includes the run whose archive or
  request never settles: no handler runs, and the code is 0.
\<close>

record env =
  argv :: "string list"
  existsSync :: "string \<Rightarrow> bool"
  HEYVR_ACCESS_TOKEN :: "string option"
  archive_directory :: "string \<Rightarrow> archive_result"
  axios :: "request \<Rightarrow> axios_result"
  Number_parseInt :: "string \<Rightarrow> jsnum"

datatype js_error = ParseArgsError parse_error | TypeError

text \<open>
  What a run does, in order: lines on the console, the archive it builds, the request it
  sends, and an exception nobody catches. \<open>LogPublishing v n\<close> is the line
  \<^verbatim>\<open>Publishing v version (n/1000 kB)\<close>; the progress lines that the upload prints while it
  goes well are not part of the trace.
\<close>

datatype event =
    ConsoleError string
  | ConsoleLog string
  | LogPublishing string nat
  | ArchiveDirectory string
  | AxiosRequest request
  | UncaughtException js_error

record outcome =
  events :: "event list"
  exit_code :: nat

text \<open>The mark \<^verbatim>\<open>U+2718\<close> and a space, in UTF-8, before each reported error.\<close>

definition cross :: string where
  "cross = [CHR 0xE2, CHR 0x9C, CHR 0x98, CHR '' '']"

definition zipDeployFolder :: "env \<Rightarrow> string \<Rightarrow> archive_result" where
  "zipDeployFolder e path = archive_directory e path"

definition printUsage :: "event list" where
  "printUsage =
     [ConsoleLog '''',
      ConsoleLog ''# Usage'',
      ConsoleLog ''heyvr --version <version> --gameId <gameId>'',
      ConsoleLog '''',
      ConsoleLog ''version  x.y.z, converted into 'minor'/'major'/'patch'.'',
      ConsoleLog ''gameId   Game ID for heyVR.'',
      ConsoleLog ''path     Path to the game, index.html required at root.'',
      ConsoleLog ''         Default deploy/ or public/.'',
      ConsoleLog '''',
      ConsoleLog ''The command expects 'HEYVR_ACCESS_TOKEN' environment'',
      ConsoleLog ''variable for authentication.'']"

text \<open>\<^verbatim>\<open>fs.existsSync\<close> answers \<^verbatim>\<open>false\<close> for a value that is not a path.\<close>

fun fs_existsSync :: "env \<Rightarrow> jsval \<Rightarrow> bool" where
  "fs_existsSync e (JStr p) = existsSync e p"
| "fs_existsSync e _ = False"

text \<open>Lines 99 and 100: the path to upload.\<close>

definition main_path :: "(string \<rightharpoonup> string) \<Rightarrow> env \<Rightarrow> jsval" where
  "main_path vals e =
     js_or (js_or (jsv (vals ''path''))
                  (js_and (JBool (existsSync e ''deploy'')) (JStr ''deploy'')))
           (js_and (JBool (existsSync e ''public'')) (JStr ''public''))"

text \<open>Lines 91 to 112: the list of errors, in the order the checks push them.\<close>

definition main_errors :: "(string \<rightharpoonup> string) \<Rightarrow> env \<Rightarrow> string list" where
  "main_errors vals e =
     (let errors = [];
          errors = (if \<not> truthy (jsv (vals ''version''))
                    then errors @ [''Missing 'version' argument.''] else errors);
          errors = (if \<not> truthy (jsv (vals ''gameId''))
                    then errors @ [''Missing 'gameId' argument.''] else errors);
          path = main_path vals e;
          errors =
            (if \<not> truthy path then
               errors @ [''No such path: deploy/ or public/\<newline>Pass a path via --path argument.'']
             else if \<not> fs_existsSync e path then
               errors @ [''Provided path '' @ toString path @ '' does not exist.'']
             else if \<not> fs_existsSync e (JStr (toString path @ ''/index.html'')) then
               errors @ [''Provided path '' @ toString path @ '' does not contain an index.html.'']
             else errors);
          accessToken = jsv (HEYVR_ACCESS_TOKEN e);
          errors = (if \<not> truthy accessToken
                    then errors @ [CHR 0x27 # ''HEYVR_ACCESS_TOKEN' environment variable not set.'']
                    else errors)
      in errors)"

text \<open>Lines 133 to 149: the form and the request.\<close>

definition main_request ::
  "(string \<rightharpoonup> string) \<Rightarrow> env \<Rightarrow> string \<Rightarrow> buffer \<Rightarrow> request" where
  "main_request vals e version gameFile =
     (let gameId = jsv (vals ''gameId'');
          accessToken = jsv (HEYVR_ACCESS_TOKEN e);
          buildData = [];
          buildData = buildData @ [(''game_slug'', FieldStr (toString gameId))];
          buildData = buildData @ [(''game_file'', FieldFile gameFile ''game.zip'')];
          buildData = buildData @ [(''version'', FieldStr version)];
          buildData = buildData @
            [(''sdk_version'',
              FieldNum (parseInt (Number_parseInt e)
                          (toString (js_or (jsv (vals ''sdkVersion'')) (JNum 1)))))]
      in \<lparr>req_method = ''post'',
          req_url = ''https://heyvr.io/api/developer/game/upload-build'',
          req_data = buildData,
          req_headers =
            [(''Content-Type'', ''multipart/form-data''),
             (''Accept'', ''application/json''),
             (''Authorization'', ''Bearer '' @ toString accessToken)]\<rparr>)"

text \<open>
  Lines 154 to 168: the handlers of the request's promise. When the request failed with
  no response, \<^verbatim>\<open>error.response.data\<close> throws inside the \<^verbatim>\<open>catch\<close> handler, and the
  rejection nobody handles ends the process with code 1. When the promise never settles
  neither handler runs: nothing is printed and the process ends with code 0. When the
  progress callback throws, the process ends with code 1.
\<close>

definition main_upload :: "env \<Rightarrow> request \<Rightarrow> outcome" where
  "main_upload e req =
     (case axios e req of
        Resolved res \<Rightarrow>
          if res_status res = 200 then
            \<lparr>events = [ConsoleLog ''Done.''], exit_code = 0\<rparr>
          else
            \<lparr>events = [ConsoleLog (''Upload failed with code '' @ show_nat (res_status res)),
                       ConsoleLog (res_data res)],
             exit_code = 1\<rparr>
      | Rejected error (Some res) \<Rightarrow>
          \<lparr>events = [ConsoleError ''Request failed with error:'',
                     ConsoleError (error @ '' ('' @ res_statusText res @ '')''),
                     ConsoleLog (res_data res)],
           exit_code = 1\<rparr>
      | Rejected error None \<Rightarrow>
          \<lparr>events = [ConsoleError ''Request failed with error:'',
                     ConsoleError (error @ '' (undefined)''),
                     UncaughtException TypeError],
           exit_code = 1\<rparr>
      | Pending \<Rightarrow> \<lparr>events = [], exit_code = 0\<rparr>
      | ProgressThrows \<Rightarrow> \<lparr>events = [UncaughtException TypeError], exit_code = 1\<rparr>)"

text \<open>
  Lines 123 to 168, reached when no check failed: classify \<^verbatim>\<open>process.argv[2]\<close>, zip the
  directory, send the form. When the archiver fails, \<^verbatim>\<open>.catch(console.error)\<close> prints the
  error and yields \<^verbatim>\<open>undefined\<close>, whose \<^verbatim>\<open>length\<close> the next line reads: a \<^verbatim>\<open>TypeError\<close>
  nobody catches. When the archive never settles, \<^verbatim>\<open>await\<close> never resumes: nothing more
  happens and the process ends with code 0.
\<close>

definition main_publish :: "(string \<rightharpoonup> string) \<Rightarrow> env \<Rightarrow> string \<Rightarrow> outcome" where
  "main_publish vals e argv2 =
     (let path = main_path vals e;
          version = classify argv2 in
      case zipDeployFolder e (toString path) of
        ArchiveError err \<Rightarrow>
          \<lparr>events = [ArchiveDirectory (toString path), ConsoleError err,
                     UncaughtException TypeError],
           exit_code = 1\<rparr>
      | ArchivePending \<Rightarrow> \<lparr>events = [ArchiveDirectory (toString path)], exit_code = 0\<rparr>
      | Archived gameFile \<Rightarrow>
          (let gameId = jsv (vals ''gameId'');
               req = main_request vals e version gameFile;
               up = main_upload e req in
           \<lparr>events =
              [ArchiveDirectory (toString path),
               LogPublishing version (length gameFile),
               ConsoleLog (''Publishing '' @ version @ '' version of ''
                           @ toString gameId @ '' to HeyVR.''),
               AxiosRequest req] @ events up,
            exit_code = exit_code up\<rparr>))"

text \<open>
  The whole of \<^verbatim>\<open>main\<close>. An exception of \<^verbatim>\<open>parseArgs\<close> is not caught: the process ends
  with code 1 before any check runs. \<^verbatim>\<open>process.argv[2]\<close> is the first argument after the
  script name; with no argument at all it is \<^verbatim>\<open>undefined\<close> and \<^verbatim>\<open>endsWith\<close> would throw.
\<close>

definition main :: "env \<Rightarrow> outcome" where
  "main e =
     (case parseArgs (argv e) of
        Inl err \<Rightarrow> \<lparr>events = [UncaughtException (ParseArgsError err)], exit_code = 1\<rparr>
      | Inr vals \<Rightarrow>
          (let errors = main_errors vals e in
           if length errors \<noteq> 0 then
             \<lparr>events =
                ConsoleError (''Found '' @ show_nat (length errors) @ '' errors:'')
                # map (\<lambda>m. ConsoleError (cross @ m)) errors @ printUsage,
              exit_code = 1\<rparr>
           else
             (case argv e of
                [] \<Rightarrow> \<lparr>events = [UncaughtException TypeError], exit_code = 1\<rparr>
              | argv2 # _ \<Rightarrow> main_publish vals e argv2)))"

text \<open>
  What a run has done: the forms it has sent, the directories it has zipped, and whether
  it has reported an error message (on the error stream, after the mark).
\<close>

definition posted_forms :: "outcome \<Rightarrow> form list" where
  "posted_forms out = [req_data r. AxiosRequest r \<leftarrow> events out]"

definition archived :: "outcome \<Rightarrow> string list" where
  "archived out = [p. ArchiveDirectory p \<leftarrow> events out]"

definition reported :: "string \<Rightarrow> outcome \<Rightarrow> bool" where
  "reported m out = (ConsoleError (cross @ m) \<in> set (events out))"

subsection \<open>Some runs\<close>

text \<open>
  The command line of the usage text, in a directory that holds \<^verbatim>\<open>deploy/index.html\<close>, with
  a token, an archiver that succeeds and a service that answers 200; and variations of it.
\<close>

definition fs_deploy :: "string \<Rightarrow> bool" where
  "fs_deploy p = (p \<in> set [''deploy'', ''deploy/index.html''])"

definition env_usage :: env where
  "env_usage =
     \<lparr>argv = [''--version'', ''1.0.0'', ''--gameId'', ''my-game''],
      existsSync = fs_deploy,
      HEYVR_ACCESS_TOKEN = Some ''secret'',
      archive_directory = (\<lambda>p. Archived [80, 75, 3, 4]),
      axios = (\<lambda>r. Resolved \<lparr>res_status = 200, res_statusText = ''OK'', res_data = ''{}''\<rparr>),
      Number_parseInt = (\<lambda>s. NaN)\<rparr>"

text \<open>No argument, no directory, no token.\<close>

definition env_bare :: env where
  "env_bare = env_usage\<lparr>argv := [], existsSync := (\<lambda>p. False), HEYVR_ACCESS_TOKEN := None\<rparr>"

text \<open>The flag \<^verbatim>\<open>--version\<close> with its value forgotten, and no token.\<close>

definition env_value_forgotten :: env where
  "env_value_forgotten = env_usage\<lparr>argv := [''--version''], HEYVR_ACCESS_TOKEN := None\<rparr>"

text \<open>The flag \<^verbatim>\<open>--version\<close> with its value forgotten, in a directory that holds nothing.\<close>

definition env_nowhere :: env where
  "env_nowhere = env_usage\<lparr>argv := [''--version''], existsSync := (\<lambda>p. False)\<rparr>"

text \<open>
  The command line of the usage text again, with a request that never settles, with an
  archiver that fails, with an archive that never settles, with a network that fails, and
  with a service that refuses the token.
\<close>

definition env_pending :: env where
  "env_pending = env_usage\<lparr>axios := (\<lambda>r. Pending)\<rparr>"

definition env_archive_error :: env where
  "env_archive_error = env_usage\<lparr>archive_directory := (\<lambda>p. ArchiveError ''EACCES'')\<rparr>"

definition env_archive_pending :: env where
  "env_archive_pending = env_usage\<lparr>archive_directory := (\<lambda>p. ArchivePending)\<rparr>"

definition env_offline :: env where
  "env_offline = env_usage\<lparr>axios := (\<lambda>r. Rejected ''AxiosError: Network Error'' None)\<rparr>"

definition env_unauthorized :: env where
  "env_unauthorized =
     env_usage\<lparr>axios := (\<lambda>r. Rejected ''AxiosError: Request failed with status code 401''
       (Some \<lparr>res_status = 401, res_statusText = ''Unauthorized'', res_data = ''{}''\<rparr>))\<rparr>"

text \<open>Only \<^verbatim>\<open>public/\<close> exists.\<close>

definition env_public :: env where
  "env_public = env_usage\<lparr>existsSync := (\<lambda>p. p \<in> set [''public'', ''public/index.html''])\<rparr>"

text \<open>An explicit path that exists and holds no \<^verbatim>\<open>index.html\<close>.\<close>

definition env_build :: env where
  "env_build =
     env_usage\<lparr>argv := [''--version'', ''1.2.3'', ''--gameId'', ''my-game'', ''--path'', ''build''],
               existsSync := (\<lambda>p. p = ''build'')\<rparr>"

text \<open>The SDK version given as the empty string, and as \<^verbatim>\<open>2\<close>.\<close>

definition env_sdk_empty :: env where
  "env_sdk_empty =
     env_usage\<lparr>argv := [''--version=1.0.0'', ''--gameId'', ''my-game'', ''--sdkVersion='']\<rparr>"

definition env_sdk_two :: env where
  "env_sdk_two =
     env_usage\<lparr>argv := [''--version=1.0.0'', ''--gameId'', ''my-game'', ''--sdkVersion'', ''2'']\<rparr>"

text \<open>
  The SDK version given as a no-break space (\<^verbatim>\<open>U+00A0\<close>, in UTF-8) and the digit 5, on an
  engine that skips the space as JavaScript does.
\<close>

definition env_sdk_nbsp :: env where
  "env_sdk_nbsp =
     env_usage\<lparr>argv := [''--version=1.0.0'', ''--gameId'', ''my-game'',
                        ''--sdkVersion='' @ [CHR 0xC2, CHR 0xA0, CHR ''5'']],
               Number_parseInt :=
                 (\<lambda>s. if s = [CHR 0xC2, CHR 0xA0, CHR ''5''] then Num 5 else NaN)\<rparr>"

section \<open>Properties\<close>

subsection \<open>Evaluation\<close>

lemmas parse_defs =
  parseArgs_def isLoneShortOption_def isShortOptionGroup_def isLoneLongOption_def
  isLongOptionAndValue_def isOptionLikeValue_def startsWith_def options_def

lemmas run_defs =
  main_def main_publish_def main_errors_def main_path_def js_or_def js_and_def
  zipDeployFolder_def classify_def endsWith_def main_request_def main_upload_def Let_def

lemmas usage_defs = env_usage_def fs_deploy_def

lemma show_nat_1: "show_nat (Suc 0) = ''1''"
  by (simp add: show_nat.simps)

lemmas parseInt_defs =
  parseInt_def isASCII_def isAsciiWhiteSpace_def isRadixDigit_def digitValue_def
  digitsValue_def show_int_def show_nat_1

lemma parseInt_1: "parseInt engine (toString (JNum 1)) = Num 1"
  by (simp add: parseInt_defs)

lemma parseInt_2: "parseInt engine ''2'' = Num 2"
  by (simp add: parseInt_defs)

lemma parseInt_empty: "parseInt engine [] = NaN"
  by (simp add: parseInt_defs)

lemma parse_usage:
  "parseArgs (argv env_usage) = Inr [''version'' \<mapsto> ''1.0.0'', ''gameId'' \<mapsto> ''my-game'']"
  by (simp add: env_usage_def parse_defs)

lemma parse_public:
  "parseArgs (argv env_public) = Inr [''version'' \<mapsto> ''1.0.0'', ''gameId'' \<mapsto> ''my-game'']"
  by (simp add: env_public_def env_usage_def parse_defs)

lemma parse_bare: "parseArgs (argv env_bare) = Inr Map.empty"
  by (simp add: env_bare_def env_usage_def parse_defs)

lemma parse_build:
  "parseArgs (argv env_build) =
     Inr [''version'' \<mapsto> ''1.2.3'', ''gameId'' \<mapsto> ''my-game'', ''path'' \<mapsto> ''build'']"
  by (simp add: env_build_def env_usage_def parse_defs)

lemma parse_sdk_empty:
  "parseArgs (argv env_sdk_empty) =
     Inr [''version'' \<mapsto> ''1.0.0'', ''gameId'' \<mapsto> ''my-game'', ''sdkVersion'' \<mapsto> []]"
  by (simp add: env_sdk_empty_def env_usage_def parse_defs)

lemma parse_sdk_two:
  "parseArgs (argv env_sdk_two) =
     Inr [''version'' \<mapsto> ''1.0.0'', ''gameId'' \<mapsto> ''my-game'', ''sdkVersion'' \<mapsto> ''2'']"
  by (simp add: env_sdk_two_def env_usage_def parse_defs)

lemma usage_valid:
  "main_errors [''version'' \<mapsto> ''1.0.0'', ''gameId'' \<mapsto> ''my-game''] env_usage = []"
  by (simp add: main_errors_def main_path_def js_or_def js_and_def Let_def usage_defs)

lemma bare_invalid: "main_errors Map.empty env_bare \<noteq> []"
  by (simp add: main_errors_def Let_def)

subsection \<open>Strings, values and the parser\<close>

lemma endsWith_iff_append: "endsWith s t \<longleftrightarrow> (\<exists>p. s = p @ t)"
proof
  assume h: "endsWith s t"
  then have "s = take (length s - length t) s @ t"
    by (metis append_take_drop_id endsWith_def)
  then show "\<exists>p. s = p @ t" ..
next
  assume "\<exists>p. s = p @ t"
  then obtain p where "s = p @ t" ..
  then show "endsWith s t" by (simp add: endsWith_def)
qed

lemma truthy_jsv: "truthy (jsv x) \<longleftrightarrow> (\<exists>s. x = Some s \<and> s \<noteq> [])"
  by (cases x) simp_all

lemma parseArgs_Nil: "parseArgs [] = Inr Map.empty"
  by (simp add: parseArgs_def)

text \<open>An option has a value only if there was an argument.\<close>

lemma parseArgs_value_nonempty:
  assumes "parseArgs args = Inr vals" and "vals k = Some v"
  shows "args \<noteq> []"
proof
  assume "args = []"
  with assms(1) have "vals = Map.empty" by (simp add: parseArgs_Nil)
  with assms(2) show False by simp
qed

subsection \<open>The path\<close>

lemma main_path_supplied:
  "vals ''path'' = Some p \<Longrightarrow> p \<noteq> [] \<Longrightarrow> main_path vals e = JStr p"
  by (simp add: main_path_def js_or_def)

lemma main_path_default:
  "\<not> truthy (jsv (vals ''path'')) \<Longrightarrow>
   main_path vals e =
     (if existsSync e ''deploy'' then JStr ''deploy''
      else if existsSync e ''public'' then JStr ''public''
      else JBool False)"
  by (simp add: main_path_def js_or_def js_and_def)

lemma main_path_JStr_truthy: "main_path vals e = JStr p \<Longrightarrow> p \<noteq> []"
  by (cases "truthy (jsv (vals ''path''))")
     (auto simp: main_path_def js_or_def js_and_def truthy_jsv split: if_splits)

subsection \<open>The shape of a run\<close>

lemma main_parse_error:
  "parseArgs (argv e) = Inl err \<Longrightarrow>
   main e = \<lparr>events = [UncaughtException (ParseArgsError err)], exit_code = 1\<rparr>"
  by (simp add: main_def)

lemma main_invalid:
  "parseArgs (argv e) = Inr vals \<Longrightarrow> main_errors vals e \<noteq> [] \<Longrightarrow>
   main e =
     \<lparr>events =
        ConsoleError (''Found '' @ show_nat (length (main_errors vals e)) @ '' errors:'')
        # map (\<lambda>m. ConsoleError (cross @ m)) (main_errors vals e) @ printUsage,
      exit_code = 1\<rparr>"
  by (simp add: main_def Let_def)

lemma main_errors_Nil_iff:
  "main_errors vals e = [] \<longleftrightarrow>
     truthy (jsv (vals ''version'')) \<and> truthy (jsv (vals ''gameId''))
     \<and> truthy (main_path vals e) \<and> fs_existsSync e (main_path vals e)
     \<and> fs_existsSync e (JStr (toString (main_path vals e) @ ''/index.html''))
     \<and> truthy (jsv (HEYVR_ACCESS_TOKEN e))"
  by (simp add: main_errors_def Let_def)

text \<open>
  When every check passes a version was given, so there is a first argument, and the run
  goes on to publish.
\<close>

lemma main_valid:
  assumes "parseArgs (argv e) = Inr vals" and "main_errors vals e = []"
  shows "\<exists>a rest. argv e = a # rest \<and> main e = main_publish vals e a"
proof -
  from assms(2) have "truthy (jsv (vals ''version''))"
    by (simp add: main_errors_Nil_iff)
  then obtain s where "vals ''version'' = Some s"
    by (auto simp: truthy_jsv)
  with assms(1) have "argv e \<noteq> []"
    by (rule parseArgs_value_nonempty)
  then obtain a rest where ar: "argv e = a # rest"
    by (cases "argv e") auto
  with assms have "main e = main_publish vals e a"
    by (simp add: main_def Let_def)
  with ar show ?thesis by blast
qed

lemma reported_main:
  assumes "parseArgs (argv e) = Inr vals" and "m \<in> set (main_errors vals e)"
  shows "reported m (main e)"
proof -
  from assms(2) have "main_errors vals e \<noteq> []" by auto
  with assms(1) have "events (main e) =
        ConsoleError (''Found '' @ show_nat (length (main_errors vals e)) @ '' errors:'')
        # map (\<lambda>m. ConsoleError (cross @ m)) (main_errors vals e) @ printUsage"
    by (simp add: main_invalid)
  with assms(2) show ?thesis by (simp add: reported_def)
qed

lemma main_upload_events:
  "ev \<in> set (events (main_upload e req)) \<Longrightarrow>
   (\<forall>p. ev \<noteq> ArchiveDirectory p) \<and> (\<forall>r. ev \<noteq> AxiosRequest r)"
  by (auto simp: main_upload_def split: axios_result.splits option.splits if_splits)

lemma main_upload_exit:
  "exit_code (main_upload e req) =
     (case axios e req of
        Resolved res \<Rightarrow> if res_status res = 200 then 0 else 1
      | Rejected error r \<Rightarrow> 1
      | Pending \<Rightarrow> 0
      | ProgressThrows \<Rightarrow> 1)"
  by (simp add: main_upload_def split: axios_result.splits option.splits)

text \<open>The one archive and the one request of a publishing run.\<close>

lemma main_publish_effects:
  "(\<forall>p. ArchiveDirectory p \<in> set (events (main_publish vals e a)) \<longrightarrow>
        p = toString (main_path vals e))
   \<and> (\<forall>r. AxiosRequest r \<in> set (events (main_publish vals e a)) \<longleftrightarrow>
        (\<exists>gameFile. zipDeployFolder e (toString (main_path vals e)) = Archived gameFile
           \<and> r = main_request vals e (classify a) gameFile))"
  by (cases "zipDeployFolder e (toString (main_path vals e))")
     (auto simp: main_publish_def Let_def dest: main_upload_events)

text \<open>The exit code of a publishing run, read off the archiver and the service.\<close>

lemma main_publish_exit:
  "exit_code (main_publish vals e a) =
     (case archive_directory e (toString (main_path vals e)) of
        Archived gameFile \<Rightarrow>
          (case axios e (main_request vals e (classify a) gameFile) of
             Resolved res \<Rightarrow> if res_status res = 200 then 0 else 1
           | Rejected error r \<Rightarrow> 1
           | Pending \<Rightarrow> 0
           | ProgressThrows \<Rightarrow> 1)
      | ArchiveError err \<Rightarrow> 1
      | ArchivePending \<Rightarrow> 0)"
  by (simp add: main_publish_def zipDeployFolder_def main_upload_exit Let_def
      split: archive_result.splits)

lemma main_effects:
  assumes "parseArgs (argv e) = Inr vals"
  shows "(main_errors vals e \<noteq> [] \<longrightarrow>
            (\<forall>p. ArchiveDirectory p \<notin> set (events (main e)))
            \<and> (\<forall>r. AxiosRequest r \<notin> set (events (main e))))
     \<and> (\<forall>p. ArchiveDirectory p \<in> set (events (main e)) \<longrightarrow> p = toString (main_path vals e))
     \<and> (\<forall>r. AxiosRequest r \<in> set (events (main e)) \<longrightarrow>
           main_errors vals e = []
           \<and> (\<exists>a rest gameFile. argv e = a # rest
                \<and> zipDeployFolder e (toString (main_path vals e)) = Archived gameFile
                \<and> r = main_request vals e (classify a) gameFile))"
proof (cases "main_errors vals e = []")
  case False
  with assms have "events (main e) =
        ConsoleError (''Found '' @ show_nat (length (main_errors vals e)) @ '' errors:'')
        # map (\<lambda>m. ConsoleError (cross @ m)) (main_errors vals e) @ printUsage"
    by (simp add: main_invalid)
  then show ?thesis by (auto simp: printUsage_def)
next
  case True
  from main_valid [OF assms True] obtain a rest where ar: "argv e = a # rest"
    and m: "main e = main_publish vals e a"
    by blast
  from main_publish_effects [of vals e a] True ar show ?thesis
    unfolding m by blast
qed

lemma posted_forms_main:
  assumes "parseArgs (argv e) = Inr vals" and "f \<in> set (posted_forms (main e))"
  shows "main_errors vals e = [] \<and>
    (\<exists>a rest gameFile. argv e = a # rest
       \<and> zipDeployFolder e (toString (main_path vals e)) = Archived gameFile
       \<and> f = req_data (main_request vals e (classify a) gameFile))"
proof -
  from assms(2) obtain r where "AxiosRequest r \<in> set (events (main e))" and "f = req_data r"
    by (auto simp: posted_forms_def)
  with main_effects [OF assms(1)] show ?thesis by blast
qed

text \<open>
  What the form carries as \<^verbatim>\<open>version\<close>: the classification of the first argument of the
  command line, whatever that argument is.
\<close>

lemma posted_version_is_first_argument:
  assumes "parseArgs (argv e) = Inr vals" and "f \<in> set (posted_forms (main e))"
  shows "\<exists>a rest. argv e = a # rest \<and> map_of f ''version'' = Some (FieldStr (classify a))"
proof -
  from posted_forms_main [OF assms] obtain a rest gameFile where
    "argv e = a # rest" and "f = req_data (main_request vals e (classify a) gameFile)"
    by blast
  then show ?thesis by (simp add: main_request_def)
qed

subsection \<open>The version keyword\<close>

text \<open>
  C1. The claim: in every run that passes the checks, the \<^verbatim>\<open>version\<close> field of the form is
  the keyword obtained by classifying the value given to \<^verbatim>\<open>--version\<close>. The code classifies
  \<^verbatim>\<open>process.argv[2]\<close> instead. On the command line of the usage text,
  \<^verbatim>\<open>heyvr --version 1.0.0 --gameId my-game\<close>, that argument is the flag name
  \<^verbatim>\<open>--version\<close>: the value \<^verbatim>\<open>1.0.0\<close> classifies as \<^verbatim>\<open>major\<close>, and the form carries
  \<^verbatim>\<open>patch\<close>.
\<close>

theorem usage_example_posts_patch:
  "parseArgs (argv env_usage) = Inr [''version'' \<mapsto> ''1.0.0'', ''gameId'' \<mapsto> ''my-game'']
   \<and> main_errors [''version'' \<mapsto> ''1.0.0'', ''gameId'' \<mapsto> ''my-game''] env_usage = []
   \<and> classify ''1.0.0'' = ''major''
   \<and> map (\<lambda>f. map_of f ''version'') (posted_forms (main env_usage))
       = [Some (FieldStr ''patch'')]"
proof -
  have a: "classify ''1.0.0'' = ''major''"
    by (simp add: classify_def endsWith_def)
  have b: "map (\<lambda>f. map_of f ''version'') (posted_forms (main env_usage))
           = [Some (FieldStr ''patch'')]"
    by (simp add: posted_forms_def usage_defs parse_defs run_defs)
  from parse_usage usage_valid a b show ?thesis by blast
qed

text \<open>
  C2. The classifier is a plain suffix match with the longer suffix tried first: a string
  that ends with \<^verbatim>\<open>.0.0\<close> gives \<^verbatim>\<open>major\<close>, otherwise one that ends with \<^verbatim>\<open>.0\<close> gives
  \<^verbatim>\<open>minor\<close>, and every other string gives \<^verbatim>\<open>patch\<close>; so the result is always one of the
  three keywords. \<^verbatim>\<open>1.10.0\<close> is \<^verbatim>\<open>minor\<close> and \<^verbatim>\<open>0.0.0\<close> is \<^verbatim>\<open>major\<close>.
\<close>

theorem classify_suffix_match:
  "classify s =
     (if (\<exists>p. s = p @ ''.0.0'') then ''major''
      else if (\<exists>p. s = p @ ''.0'') then ''minor''
      else ''patch'')
   \<and> classify s \<in> {''major'', ''minor'', ''patch''}
   \<and> classify ''1.10.0'' = ''minor''
   \<and> classify ''0.0.0'' = ''major''"
proof -
  have a: "classify s =
     (if (\<exists>p. s = p @ ''.0.0'') then ''major''
      else if (\<exists>p. s = p @ ''.0'') then ''minor''
      else ''patch'')"
    unfolding classify_def endsWith_iff_append by (rule refl)
  have b: "classify s \<in> {''major'', ''minor'', ''patch''}"
    by (simp add: classify_def)
  have c: "classify ''1.10.0'' = ''minor''"
    by (simp add: classify_def endsWith_def)
  have d: "classify ''0.0.0'' = ''major''"
    by (simp add: classify_def endsWith_def)
  from a b c d show ?thesis by blast
qed

subsection \<open>The checks\<close>

text \<open>
  C3, as stated, fails: the claim is about every invocation, and an invocation whose command
  line the parser rejects ends at the parser. With \<^verbatim>\<open>--version\<close> given without its value
  and no token in the environment, the version argument and the token are both missing;
  the run reports neither and dies of the parser's exception.
\<close>

theorem parse_failure_reports_nothing:
  "HEYVR_ACCESS_TOKEN env_value_forgotten = None
   \<and> \<not> reported (CHR 0x27 # ''HEYVR_ACCESS_TOKEN' environment variable not set.'')
         (main env_value_forgotten)
   \<and> \<not> reported ''Missing 'version' argument.'' (main env_value_forgotten)
   \<and> main env_value_forgotten =
       \<lparr>events = [UncaughtException
                    (ParseArgsError (ERR_PARSE_ARGS_INVALID_OPTION_VALUE ''--version''))],
        exit_code = 1\<rparr>"
  by (simp add: reported_def env_value_forgotten_def env_usage_def parse_defs main_def)

text \<open>
  C3, amended. In every invocation whose command line the parser accepts, every failed
  precondition is reported in that one run: a missing (or empty) version, a missing (or
  empty) game id, no path to upload, a path that does not exist, a path without
  \<^verbatim>\<open>index.html\<close>, a missing (or empty) token. When there is any, the run prints the count,
  each message of the list, the usage text, and exits with code 1.
\<close>

theorem all_failures_reported_together:
  assumes "parseArgs (argv e) = Inr vals"
  shows
    "(\<not> truthy (jsv (vals ''version'')) \<longrightarrow>
        reported ''Missing 'version' argument.'' (main e))
     \<and> (\<not> truthy (jsv (vals ''gameId'')) \<longrightarrow>
        reported ''Missing 'gameId' argument.'' (main e))
     \<and> (\<not> truthy (main_path vals e) \<longrightarrow>
        reported ''No such path: deploy/ or public/\<newline>Pass a path via --path argument.''
          (main e))
     \<and> (\<forall>p. main_path vals e = JStr p \<and> \<not> existsSync e p \<longrightarrow>
        reported (''Provided path '' @ p @ '' does not exist.'') (main e))
     \<and> (\<forall>p. main_path vals e = JStr p \<and> existsSync e p
             \<and> \<not> existsSync e (p @ ''/index.html'') \<longrightarrow>
        reported (''Provided path '' @ p @ '' does not contain an index.html.'') (main e))
     \<and> (\<not> truthy (jsv (HEYVR_ACCESS_TOKEN e)) \<longrightarrow>
        reported (CHR 0x27 # ''HEYVR_ACCESS_TOKEN' environment variable not set.'') (main e))
     \<and> (main_errors vals e \<noteq> [] \<longrightarrow>
        main e =
          \<lparr>events =
             ConsoleError (''Found '' @ show_nat (length (main_errors vals e)) @ '' errors:'')
             # map (\<lambda>m. ConsoleError (cross @ m)) (main_errors vals e) @ printUsage,
           exit_code = 1\<rparr>)"
proof -
  note r = reported_main [OF assms]
  have a: "\<not> truthy (jsv (vals ''version'')) \<longrightarrow>
        reported ''Missing 'version' argument.'' (main e)"
    by (auto intro!: r simp: main_errors_def Let_def)
  have b: "\<not> truthy (jsv (vals ''gameId'')) \<longrightarrow>
        reported ''Missing 'gameId' argument.'' (main e)"
    by (auto intro!: r simp: main_errors_def Let_def)
  have c: "\<not> truthy (main_path vals e) \<longrightarrow>
        reported ''No such path: deploy/ or public/\<newline>Pass a path via --path argument.''
          (main e)"
    by (auto intro!: r simp: main_errors_def Let_def)
  have d: "\<forall>p. main_path vals e = JStr p \<and> \<not> existsSync e p \<longrightarrow>
        reported (''Provided path '' @ p @ '' does not exist.'') (main e)"
  proof (intro allI impI)
    fix p assume h: "main_path vals e = JStr p \<and> \<not> existsSync e p"
    then have "p \<noteq> []" by (auto dest: main_path_JStr_truthy)
    with h show "reported (''Provided path '' @ p @ '' does not exist.'') (main e)"
      by (auto intro!: r simp: main_errors_def Let_def)
  qed
  have f: "\<forall>p. main_path vals e = JStr p \<and> existsSync e p
             \<and> \<not> existsSync e (p @ ''/index.html'') \<longrightarrow>
        reported (''Provided path '' @ p @ '' does not contain an index.html.'') (main e)"
  proof (intro allI impI)
    fix p assume h: "main_path vals e = JStr p \<and> existsSync e p
             \<and> \<not> existsSync e (p @ ''/index.html'')"
    then have "p \<noteq> []" by (auto dest: main_path_JStr_truthy)
    with h show "reported (''Provided path '' @ p @ '' does not contain an index.html.'') (main e)"
      by (auto intro!: r simp: main_errors_def Let_def)
  qed
  have g: "\<not> truthy (jsv (HEYVR_ACCESS_TOKEN e)) \<longrightarrow>
        reported (CHR 0x27 # ''HEYVR_ACCESS_TOKEN' environment variable not set.'') (main e)"
    by (auto intro!: r simp: main_errors_def Let_def)
  have h: "main_errors vals e \<noteq> [] \<longrightarrow>
        main e =
          \<lparr>events =
             ConsoleError (''Found '' @ show_nat (length (main_errors vals e)) @ '' errors:'')
             # map (\<lambda>m. ConsoleError (cross @ m)) (main_errors vals e) @ printUsage,
           exit_code = 1\<rparr>"
    using assms by (simp add: main_invalid)
  show ?thesis
    by (rule conjI [OF a conjI [OF b conjI [OF c conjI [OF d conjI [OF f conjI [OF g h]]]]]])
qed

text \<open>With no argument, no directory and no token, four messages come out of one run.\<close>

theorem all_failures_reported_together_witness:
  "parseArgs (argv env_bare) = Inr Map.empty
   \<and> reported ''Missing 'version' argument.'' (main env_bare)
   \<and> reported ''Missing 'gameId' argument.'' (main env_bare)
   \<and> reported ''No such path: deploy/ or public/\<newline>Pass a path via --path argument.''
       (main env_bare)
   \<and> reported (CHR 0x27 # ''HEYVR_ACCESS_TOKEN' environment variable not set.'') (main env_bare)
   \<and> exit_code (main env_bare) = 1"
proof -
  note th = all_failures_reported_together [OF parse_bare]
  have v: "\<not> truthy (jsv (Map.empty ''version''))"
    and g: "\<not> truthy (jsv (Map.empty ''gameId''))"
    by simp_all
  have t: "\<not> truthy (main_path Map.empty env_bare)"
    by (simp add: main_path_def js_or_def js_and_def env_bare_def env_usage_def)
  have k: "\<not> truthy (jsv (HEYVR_ACCESS_TOKEN env_bare))"
    by (simp add: env_bare_def env_usage_def)
  from th v g t k have r:
    "reported ''Missing 'version' argument.'' (main env_bare)
     \<and> reported ''Missing 'gameId' argument.'' (main env_bare)
     \<and> reported ''No such path: deploy/ or public/\<newline>Pass a path via --path argument.''
         (main env_bare)
     \<and> reported (CHR 0x27 # ''HEYVR_ACCESS_TOKEN' environment variable not set.'')
         (main env_bare)"
    by blast
  from th bare_invalid have x: "exit_code (main env_bare) = 1"
    by simp
  from parse_bare r x show ?thesis by blast
qed

text \<open>
  C5, as stated, fails for the same reason: with \<^verbatim>\<open>--version\<close> given without its value, in
  a directory that holds neither \<^verbatim>\<open>deploy\<close> nor \<^verbatim>\<open>public\<close>, no \<^verbatim>\<open>--path\<close> is supplied and
  no missing-path error is recorded or reported; the run dies of the parser's exception
  (with a non-zero exit code).
\<close>

theorem parse_failure_records_no_missing_path:
  "argv env_nowhere = [''--version'']
   \<and> \<not> existsSync env_nowhere ''deploy'' \<and> \<not> existsSync env_nowhere ''public''
   \<and> \<not> reported ''No such path: deploy/ or public/\<newline>Pass a path via --path argument.''
         (main env_nowhere)
   \<and> main env_nowhere =
       \<lparr>events = [UncaughtException
                    (ParseArgsError (ERR_PARSE_ARGS_INVALID_OPTION_VALUE ''--version''))],
        exit_code = 1\<rparr>"
  by (simp add: reported_def env_nowhere_def env_usage_def parse_defs main_def)

text \<open>
  C5, amended. In an invocation whose command line the parser accepts and that gives no
  \<^verbatim>\<open>--path\<close>, when neither \<^verbatim>\<open>deploy\<close> nor \<^verbatim>\<open>public\<close> exists, the list of errors holds the
  missing-path message, the run reports it, and the exit code is 1.
\<close>

theorem no_path_and_no_default_directory:
  assumes "parseArgs (argv e) = Inr vals"
    and "vals ''path'' = None"
    and "\<not> existsSync e ''deploy''"
    and "\<not> existsSync e ''public''"
  shows "''No such path: deploy/ or public/\<newline>Pass a path via --path argument.''
           \<in> set (main_errors vals e)
     \<and> reported ''No such path: deploy/ or public/\<newline>Pass a path via --path argument.''
         (main e)
     \<and> exit_code (main e) = 1"
proof -
  from assms(2-4) have "main_path vals e = JBool False"
    by (simp add: main_path_default)
  then have m: "''No such path: deploy/ or public/\<newline>Pass a path via --path argument.''
           \<in> set (main_errors vals e)"
    by (simp add: main_errors_def Let_def)
  then have "main_errors vals e \<noteq> []" by auto
  with assms(1) have "exit_code (main e) = 1"
    by (simp add: main_invalid)
  with m reported_main [OF assms(1) m] show ?thesis by blast
qed

theorem no_path_and_no_default_directory_witness:
  "parseArgs (argv env_bare) = Inr Map.empty
   \<and> \<not> existsSync env_bare ''deploy'' \<and> \<not> existsSync env_bare ''public''
   \<and> reported ''No such path: deploy/ or public/\<newline>Pass a path via --path argument.''
       (main env_bare)
   \<and> exit_code (main env_bare) = 1"
proof -
  have d: "\<not> existsSync env_bare ''deploy''" and p: "\<not> existsSync env_bare ''public''"
    by (simp_all add: env_bare_def env_usage_def)
  have "Map.empty ''path'' = None" by simp
  from no_path_and_no_default_directory [OF parse_bare this d p] parse_bare d p
  show ?thesis by blast
qed

text \<open>
  C6. In an invocation whose path to upload is \<open>p\<close>, when \<open>p\<close> exists and \<open>p/index.html\<close>
  does not, the list of errors holds the message that names \<open>p\<close> and the missing
  \<^verbatim>\<open>index.html\<close>, the run reports it, and the exit code is 1.
\<close>

theorem missing_index_html:
  assumes "parseArgs (argv e) = Inr vals"
    and "main_path vals e = JStr p"
    and "existsSync e p"
    and "\<not> existsSync e (p @ ''/index.html'')"
  shows "(''Provided path '' @ p @ '' does not contain an index.html.'')
           \<in> set (main_errors vals e)
     \<and> reported (''Provided path '' @ p @ '' does not contain an index.html.'') (main e)
     \<and> exit_code (main e) = 1"
proof -
  from assms(2) have "p \<noteq> []" by (rule main_path_JStr_truthy)
  with assms(2-4) have m: "(''Provided path '' @ p @ '' does not contain an index.html.'')
           \<in> set (main_errors vals e)"
    by (simp add: main_errors_def Let_def)
  then have "main_errors vals e \<noteq> []" by auto
  with assms(1) have "exit_code (main e) = 1"
    by (simp add: main_invalid)
  with m reported_main [OF assms(1) m] show ?thesis by blast
qed

theorem missing_index_html_witness:
  "main_path [''version'' \<mapsto> ''1.2.3'', ''gameId'' \<mapsto> ''my-game'', ''path'' \<mapsto> ''build'']
     env_build = JStr ''build''
   \<and> existsSync env_build ''build''
   \<and> \<not> existsSync env_build ''build/index.html''
   \<and> reported ''Provided path build does not contain an index.html.'' (main env_build)
   \<and> exit_code (main env_build) = 1"
proof -
  have a: "main_path [''version'' \<mapsto> ''1.2.3'', ''gameId'' \<mapsto> ''my-game'', ''path'' \<mapsto> ''build'']
     env_build = JStr ''build''"
    by (simp add: main_path_def js_or_def)
  have b: "existsSync env_build ''build''"
    and c: "\<not> existsSync env_build (''build'' @ ''/index.html'')"
    by (simp_all add: env_build_def env_usage_def)
  from missing_index_html [OF parse_build a b c] a b c show ?thesis by simp
qed

text \<open>
  C10. When the list of errors is not empty the run ends there: its trace holds no archive
  and no request, and the exit code is 1.
\<close>

theorem validation_failure_stops_before_effects:
  assumes "parseArgs (argv e) = Inr vals" and "main_errors vals e \<noteq> []"
  shows "(\<forall>p. ArchiveDirectory p \<notin> set (events (main e)))
     \<and> (\<forall>r. AxiosRequest r \<notin> set (events (main e)))
     \<and> archived (main e) = [] \<and> posted_forms (main e) = []
     \<and> exit_code (main e) = 1"
proof -
  from assms have m: "main e =
     \<lparr>events =
        ConsoleError (''Found '' @ show_nat (length (main_errors vals e)) @ '' errors:'')
        # map (\<lambda>m. ConsoleError (cross @ m)) (main_errors vals e) @ printUsage,
      exit_code = 1\<rparr>"
    by (rule main_invalid)
  have a: "\<forall>p. ArchiveDirectory p \<notin> set (events (main e))"
    and b: "\<forall>r. AxiosRequest r \<notin> set (events (main e))"
    using main_effects [OF assms(1)] assms(2) by blast+
  have c: "archived (main e) = []"
    unfolding archived_def m by (simp add: printUsage_def)
  have d: "posted_forms (main e) = []"
    unfolding posted_forms_def m by (simp add: printUsage_def)
  have x: "exit_code (main e) = 1"
    by (simp add: m)
  from a b c d x show ?thesis by blast
qed

theorem validation_failure_stops_before_effects_witness:
  "parseArgs (argv env_build) =
     Inr [''version'' \<mapsto> ''1.2.3'', ''gameId'' \<mapsto> ''my-game'', ''path'' \<mapsto> ''build'']
   \<and> main_errors [''version'' \<mapsto> ''1.2.3'', ''gameId'' \<mapsto> ''my-game'', ''path'' \<mapsto> ''build'']
       env_build = [''Provided path build does not contain an index.html.'']
   \<and> archived (main env_build) = [] \<and> posted_forms (main env_build) = []
   \<and> exit_code (main env_build) = 1"
proof -
  have n: "main_errors [''version'' \<mapsto> ''1.2.3'', ''gameId'' \<mapsto> ''my-game'', ''path'' \<mapsto> ''build'']
       env_build = [''Provided path build does not contain an index.html.'']"
    by (simp add: main_errors_def main_path_def js_or_def Let_def env_build_def env_usage_def)
  then have "main_errors [''version'' \<mapsto> ''1.2.3'', ''gameId'' \<mapsto> ''my-game'', ''path'' \<mapsto> ''build'']
       env_build \<noteq> []"
    by simp
  from validation_failure_stops_before_effects [OF parse_build this] parse_build n
  show ?thesis by blast
qed

subsection \<open>The path to upload\<close>

text \<open>
  C7. In an invocation that gives no \<^verbatim>\<open>--path\<close>, the path to upload is \<^verbatim>\<open>deploy\<close> when
  \<^verbatim>\<open>deploy\<close> exists, and \<^verbatim>\<open>public\<close> when \<^verbatim>\<open>deploy\<close> does not exist and \<^verbatim>\<open>public\<close> does. It is
  the only directory the run ever zips.
\<close>

theorem default_path_prefers_deploy:
  assumes "parseArgs (argv e) = Inr vals" and "vals ''path'' = None"
  shows "(existsSync e ''deploy'' \<longrightarrow> main_path vals e = JStr ''deploy'')
     \<and> (\<not> existsSync e ''deploy'' \<and> existsSync e ''public'' \<longrightarrow>
          main_path vals e = JStr ''public'')
     \<and> set (archived (main e)) \<subseteq> {toString (main_path vals e)}"
proof -
  from assms(2) have "main_path vals e =
     (if existsSync e ''deploy'' then JStr ''deploy''
      else if existsSync e ''public'' then JStr ''public''
      else JBool False)"
    by (simp add: main_path_default)
  moreover from main_effects [OF assms(1)]
  have "set (archived (main e)) \<subseteq> {toString (main_path vals e)}"
    by (auto simp: archived_def)
  ultimately show ?thesis by simp
qed

theorem default_path_prefers_deploy_witness:
  "parseArgs (argv env_usage) = Inr [''version'' \<mapsto> ''1.0.0'', ''gameId'' \<mapsto> ''my-game'']
   \<and> existsSync env_usage ''deploy''
   \<and> main_path [''version'' \<mapsto> ''1.0.0'', ''gameId'' \<mapsto> ''my-game''] env_usage = JStr ''deploy''
   \<and> parseArgs (argv env_public) = Inr [''version'' \<mapsto> ''1.0.0'', ''gameId'' \<mapsto> ''my-game'']
   \<and> \<not> existsSync env_public ''deploy'' \<and> existsSync env_public ''public''
   \<and> main_path [''version'' \<mapsto> ''1.0.0'', ''gameId'' \<mapsto> ''my-game''] env_public = JStr ''public''"
proof -
  have n: "[''version'' \<mapsto> ''1.0.0'', ''gameId'' \<mapsto> ''my-game''] ''path'' = None"
    by simp
  have d: "existsSync env_usage ''deploy''"
    by (simp add: usage_defs)
  have p: "\<not> existsSync env_public ''deploy''" "existsSync env_public ''public''"
    by (simp_all add: env_public_def env_usage_def)
  from default_path_prefers_deploy [OF parse_usage n]
    default_path_prefers_deploy [OF parse_public n] parse_usage parse_public d p
  show ?thesis by blast
qed

text \<open>
  C9. In an invocation that gives \<^verbatim>\<open>--path\<close> a value \<open>p\<close> that is not empty, the path to
  upload is \<open>p\<close>, and it is \<open>p\<close> again in the run that differs from it only in what exists
  on the file system, whatever that is: the existence of \<^verbatim>\<open>deploy\<close> and of \<^verbatim>\<open>public\<close> has
  no part in it.
\<close>

theorem supplied_path_ignores_default_directories:
  assumes "parseArgs (argv e) = Inr vals" and "vals ''path'' = Some p" and "p \<noteq> []"
  shows "main_path vals e = JStr p
     \<and> parseArgs (argv (e\<lparr>existsSync := f\<rparr>)) = Inr vals
     \<and> main_path vals (e\<lparr>existsSync := f\<rparr>) = JStr p"
proof -
  from assms(2,3) have a: "main_path vals e = JStr p"
    by (rule main_path_supplied)
  from assms(2,3) have b: "main_path vals (e\<lparr>existsSync := f\<rparr>) = JStr p"
    by (rule main_path_supplied)
  from assms(1) have c: "parseArgs (argv (e\<lparr>existsSync := f\<rparr>)) = Inr vals"
    by simp
  from a b c show ?thesis by blast
qed

theorem supplied_path_ignores_default_directories_witness:
  "parseArgs (argv env_build) =
     Inr [''version'' \<mapsto> ''1.2.3'', ''gameId'' \<mapsto> ''my-game'', ''path'' \<mapsto> ''build'']
   \<and> main_path [''version'' \<mapsto> ''1.2.3'', ''gameId'' \<mapsto> ''my-game'', ''path'' \<mapsto> ''build'']
       env_build = JStr ''build''
   \<and> main_path [''version'' \<mapsto> ''1.2.3'', ''gameId'' \<mapsto> ''my-game'', ''path'' \<mapsto> ''build'']
       (env_build\<lparr>existsSync := fs_deploy\<rparr>) = JStr ''build''"
proof -
  have a: "[''version'' \<mapsto> ''1.2.3'', ''gameId'' \<mapsto> ''my-game'', ''path'' \<mapsto> ''build''] ''path''
           = Some ''build''"
    by simp
  have b: "''build'' \<noteq> []" by simp
  from supplied_path_ignores_default_directories [OF parse_build a b, of fs_deploy] parse_build
  show ?thesis by blast
qed

subsection \<open>The exit code\<close>

text \<open>
  C4, as stated, fails: the exit code can be 0 without a response of status 200. The code
  sets an exit code only in the handlers of the request, and \<^verbatim>\<open>main()\<close> is not awaited. On
  the command line of the usage text, with every check passed and the archive built, a
  request that never settles runs no handler: nothing says \<^verbatim>\<open>Done.\<close>, and the process ends
  with code 0.
\<close>

theorem pending_request_exits_zero:
  "parseArgs (argv env_pending) = Inr [''version'' \<mapsto> ''1.0.0'', ''gameId'' \<mapsto> ''my-game'']
   \<and> main_errors [''version'' \<mapsto> ''1.0.0'', ''gameId'' \<mapsto> ''my-game''] env_pending = []
   \<and> (\<forall>req. axios env_pending req = Pending)
   \<and> ConsoleLog ''Done.'' \<notin> set (events (main env_pending))
   \<and> exit_code (main env_pending) = 0"
proof -
  have a: "parseArgs (argv env_pending) = Inr [''version'' \<mapsto> ''1.0.0'', ''gameId'' \<mapsto> ''my-game'']"
    by (simp add: env_pending_def env_usage_def parse_defs)
  have b: "main_errors [''version'' \<mapsto> ''1.0.0'', ''gameId'' \<mapsto> ''my-game''] env_pending = []"
    by (simp add: main_errors_def main_path_def js_or_def js_and_def Let_def
        env_pending_def usage_defs)
  have c: "\<forall>req. axios env_pending req = Pending"
    by (simp add: env_pending_def)
  have d: "ConsoleLog ''Done.'' \<notin> set (events (main env_pending))"
    by (simp add: env_pending_def usage_defs parse_defs run_defs)
  have x: "exit_code (main env_pending) = 0"
    by (simp add: env_pending_def usage_defs parse_defs run_defs)
  from a b c d x show ?thesis by blast
qed

text \<open>
  C4, amended. The exit code is 0 exactly when the command line parses, no check fails,
  and either the request is answered with status 200, or the archive or the request never
  settles; otherwise it is 1. In particular it is 1 when the parser rejects the command
  line, when a check fails, when the archiver fails, and when the request ends in a
  response of another status, in a rejection, with a response or without one, or in an
  exception of the progress callback. The conditions are on the environment: what the archiver does with the path to upload and
  what the service does with the request.
\<close>

theorem exit_code_of_a_run:
  "(exit_code (main e) = 0 \<longleftrightarrow>
      (\<exists>vals a rest. parseArgs (argv e) = Inr vals \<and> main_errors vals e = []
         \<and> argv e = a # rest
         \<and> (archive_directory e (toString (main_path vals e)) = ArchivePending
            \<or> (\<exists>gameFile.
                  archive_directory e (toString (main_path vals e)) = Archived gameFile
                  \<and> (axios e (main_request vals e (classify a) gameFile) = Pending
                     \<or> (\<exists>res. axios e (main_request vals e (classify a) gameFile) = Resolved res
                           \<and> res_status res = 200))))))
   \<and> (exit_code (main e) \<noteq> 0 \<longrightarrow> exit_code (main e) = 1)
   \<and> (\<forall>err. parseArgs (argv e) = Inl err \<longrightarrow> exit_code (main e) = 1)
   \<and> (\<forall>vals. parseArgs (argv e) = Inr vals \<and> main_errors vals e \<noteq> [] \<longrightarrow>
         exit_code (main e) = 1)
   \<and> (\<forall>vals err. parseArgs (argv e) = Inr vals \<and> main_errors vals e = []
         \<and> archive_directory e (toString (main_path vals e)) = ArchiveError err \<longrightarrow>
         exit_code (main e) = 1)
   \<and> (\<forall>vals a rest gameFile res. parseArgs (argv e) = Inr vals \<and> main_errors vals e = []
         \<and> argv e = a # rest
         \<and> archive_directory e (toString (main_path vals e)) = Archived gameFile
         \<and> axios e (main_request vals e (classify a) gameFile) = Resolved res
         \<and> res_status res \<noteq> 200 \<longrightarrow>
         exit_code (main e) = 1)
   \<and> (\<forall>vals a rest gameFile error r. parseArgs (argv e) = Inr vals \<and> main_errors vals e = []
         \<and> argv e = a # rest
         \<and> archive_directory e (toString (main_path vals e)) = Archived gameFile
         \<and> axios e (main_request vals e (classify a) gameFile) = Rejected error r \<longrightarrow>
         exit_code (main e) = 1)
   \<and> (\<forall>vals a rest gameFile. parseArgs (argv e) = Inr vals \<and> main_errors vals e = []
         \<and> argv e = a # rest
         \<and> archive_directory e (toString (main_path vals e)) = Archived gameFile
         \<and> axios e (main_request vals e (classify a) gameFile) = ProgressThrows \<longrightarrow>
         exit_code (main e) = 1)"
proof -
  let ?zero = "\<exists>vals a rest. parseArgs (argv e) = Inr vals \<and> main_errors vals e = []
         \<and> argv e = a # rest
         \<and> (archive_directory e (toString (main_path vals e)) = ArchivePending
            \<or> (\<exists>gameFile.
                  archive_directory e (toString (main_path vals e)) = Archived gameFile
                  \<and> (axios e (main_request vals e (classify a) gameFile) = Pending
                     \<or> (\<exists>res. axios e (main_request vals e (classify a) gameFile) = Resolved res
                           \<and> res_status res = 200))))"
  have valid: "exit_code (main e) = exit_code (main_publish vals e a)"
    if "parseArgs (argv e) = Inr vals" "main_errors vals e = []" "argv e = a # rest"
    for vals a rest
    using main_valid [OF that(1,2)] that(3) by auto
  have x: "exit_code (main e) = (if ?zero then 0 else 1)"
  proof (cases "parseArgs (argv e)")
    case (Inl err)
    then show ?thesis by (simp add: main_parse_error)
  next
    case (Inr vals)
    show ?thesis
    proof (cases "main_errors vals e = []")
      case False
      with Inr show ?thesis by (simp add: main_invalid)
    next
      case True
      from main_valid [OF Inr True] obtain a rest where ar: "argv e = a # rest"
        by blast
      have "exit_code (main e) = exit_code (main_publish vals e a)"
        using Inr True ar by (rule valid)
      with Inr True ar show ?thesis
        by (simp add: main_publish_exit split: archive_result.splits axios_result.splits)
    qed
  qed
  have a: "exit_code (main e) = 0 \<longleftrightarrow> ?zero"
    by (subst x) simp
  have b: "exit_code (main e) \<noteq> 0 \<longrightarrow> exit_code (main e) = 1"
    by (subst (1 2) x) simp
  have c: "\<forall>err. parseArgs (argv e) = Inl err \<longrightarrow> exit_code (main e) = 1"
    by (simp add: main_parse_error)
  have d: "\<forall>vals. parseArgs (argv e) = Inr vals \<and> main_errors vals e \<noteq> [] \<longrightarrow>
         exit_code (main e) = 1"
    by (simp add: main_invalid)
  have f: "\<forall>vals err. parseArgs (argv e) = Inr vals \<and> main_errors vals e = []
         \<and> archive_directory e (toString (main_path vals e)) = ArchiveError err \<longrightarrow>
         exit_code (main e) = 1"
  proof (intro allI impI)
    fix vals err
    assume h: "parseArgs (argv e) = Inr vals \<and> main_errors vals e = []
         \<and> archive_directory e (toString (main_path vals e)) = ArchiveError err"
    with main_valid [of e vals] obtain a rest where ar: "argv e = a # rest"
      by blast
    with h have "exit_code (main e) = exit_code (main_publish vals e a)"
      by (blast intro: valid)
    with h show "exit_code (main e) = 1"
      by (simp add: main_publish_exit)
  qed
  have g: "\<forall>vals a rest gameFile res. parseArgs (argv e) = Inr vals \<and> main_errors vals e = []
         \<and> argv e = a # rest
         \<and> archive_directory e (toString (main_path vals e)) = Archived gameFile
         \<and> axios e (main_request vals e (classify a) gameFile) = Resolved res
         \<and> res_status res \<noteq> 200 \<longrightarrow>
         exit_code (main e) = 1"
  proof (intro allI impI)
    fix vals a rest gameFile res
    assume h: "parseArgs (argv e) = Inr vals \<and> main_errors vals e = []
         \<and> argv e = a # rest
         \<and> archive_directory e (toString (main_path vals e)) = Archived gameFile
         \<and> axios e (main_request vals e (classify a) gameFile) = Resolved res
         \<and> res_status res \<noteq> 200"
    then have "exit_code (main e) = exit_code (main_publish vals e a)"
      by (blast intro: valid)
    with h show "exit_code (main e) = 1"
      by (simp add: main_publish_exit)
  qed
  have k: "\<forall>vals a rest gameFile error r. parseArgs (argv e) = Inr vals \<and> main_errors vals e = []
         \<and> argv e = a # rest
         \<and> archive_directory e (toString (main_path vals e)) = Archived gameFile
         \<and> axios e (main_request vals e (classify a) gameFile) = Rejected error r \<longrightarrow>
         exit_code (main e) = 1"
  proof (intro allI impI)
    fix vals a rest gameFile error r
    assume h: "parseArgs (argv e) = Inr vals \<and> main_errors vals e = []
         \<and> argv e = a # rest
         \<and> archive_directory e (toString (main_path vals e)) = Archived gameFile
         \<and> axios e (main_request vals e (classify a) gameFile) = Rejected error r"
    then have "exit_code (main e) = exit_code (main_publish vals e a)"
      by (blast intro: valid)
    with h show "exit_code (main e) = 1"
      by (simp add: main_publish_exit)
  qed
  have m: "\<forall>vals a rest gameFile. parseArgs (argv e) = Inr vals \<and> main_errors vals e = []
         \<and> argv e = a # rest
         \<and> archive_directory e (toString (main_path vals e)) = Archived gameFile
         \<and> axios e (main_request vals e (classify a) gameFile) = ProgressThrows \<longrightarrow>
         exit_code (main e) = 1"
  proof (intro allI impI)
    fix vals a rest gameFile
    assume h: "parseArgs (argv e) = Inr vals \<and> main_errors vals e = []
         \<and> argv e = a # rest
         \<and> archive_directory e (toString (main_path vals e)) = Archived gameFile
         \<and> axios e (main_request vals e (classify a) gameFile) = ProgressThrows"
    then have "exit_code (main e) = exit_code (main_publish vals e a)"
      by (blast intro: valid)
    with h show "exit_code (main e) = 1"
      by (simp add: main_publish_exit)
  qed
  show ?thesis
    by (rule conjI [OF a conjI [OF b conjI [OF c conjI [OF d conjI [OF f conjI [OF g
          conjI [OF k m]]]]]]])
qed

text \<open>
  The run of the usage text ends with 0; the runs with no argument, with a failing
  archiver, with a failing network and with a refused token end with 1; the run whose
  archive never settles ends with 0.
\<close>

theorem exit_code_of_a_run_witness:
  "exit_code (main env_usage) = 0
   \<and> main_errors Map.empty env_bare \<noteq> []
   \<and> exit_code (main env_bare) = 1
   \<and> archive_directory env_archive_error ''deploy'' = ArchiveError ''EACCES''
   \<and> exit_code (main env_archive_error) = 1
   \<and> axios env_offline
        (main_request [''version'' \<mapsto> ''1.0.0'', ''gameId'' \<mapsto> ''my-game''] env_offline
           ''patch'' [80, 75, 3, 4])
      = Rejected ''AxiosError: Network Error'' None
   \<and> exit_code (main env_offline) = 1
   \<and> exit_code (main env_unauthorized) = 1
   \<and> archive_directory env_archive_pending ''deploy'' = ArchivePending
   \<and> exit_code (main env_archive_pending) = 0"
proof -
  let ?vals = "[''version'' \<mapsto> ''1.0.0'', ''gameId'' \<mapsto> ''my-game'']"
  let ?argv = "[''--version'', ''1.0.0'', ''--gameId'', ''my-game'']"
  have cl: "classify ''--version'' = ''patch''"
    by (simp add: classify_def endsWith_def)
  have path: "\<And>e. existsSync e = fs_deploy \<Longrightarrow> toString (main_path ?vals e) = ''deploy''"
    by (simp add: main_path_def js_or_def js_and_def fs_deploy_def)
  have valid: "\<And>e. existsSync e = fs_deploy \<Longrightarrow> HEYVR_ACCESS_TOKEN e = Some ''secret''
      \<Longrightarrow> main_errors ?vals e = []"
    by (simp add: main_errors_def main_path_def js_or_def js_and_def Let_def fs_deploy_def)
  have parse: "\<And>e. argv e = ?argv \<Longrightarrow> parseArgs (argv e) = Inr ?vals"
    by (simp add: parse_defs)
  \<comment> \<open>the run of the usage text\<close>
  have u1: "archive_directory env_usage (toString (main_path ?vals env_usage))
            = Archived [80, 75, 3, 4]"
    by (simp add: env_usage_def)
  have u2: "axios env_usage (main_request ?vals env_usage (classify ''--version'') [80, 75, 3, 4])
            = Resolved \<lparr>res_status = 200, res_statusText = ''OK'', res_data = ''{}''\<rparr>"
    by (simp add: env_usage_def)
  have u3: "argv env_usage = ''--version'' # [''1.0.0'', ''--gameId'', ''my-game'']"
    by (simp add: env_usage_def)
  have "\<exists>vals a rest. parseArgs (argv env_usage) = Inr vals \<and> main_errors vals env_usage = []
         \<and> argv env_usage = a # rest
         \<and> (archive_directory env_usage (toString (main_path vals env_usage)) = ArchivePending
            \<or> (\<exists>gameFile.
                  archive_directory env_usage (toString (main_path vals env_usage))
                    = Archived gameFile
                  \<and> (axios env_usage (main_request vals env_usage (classify a) gameFile) = Pending
                     \<or> (\<exists>res. axios env_usage (main_request vals env_usage (classify a) gameFile)
                            = Resolved res \<and> res_status res = 200))))"
    using parse_usage usage_valid u1 u2 u3
    by (intro exI [of _ ?vals] exI [of _ "''--version''"]
          exI [of _ "[''1.0.0'', ''--gameId'', ''my-game'']"]) simp
  with exit_code_of_a_run [of env_usage, THEN conjunct1]
  have a: "exit_code (main env_usage) = 0"
    by (rule iffD2)
  \<comment> \<open>no argument\<close>
  from exit_code_of_a_run [of env_bare, THEN conjunct2, THEN conjunct2, THEN conjunct2,
      THEN conjunct1] parse_bare bare_invalid
  have b: "exit_code (main env_bare) = 1"
    by blast
  \<comment> \<open>the archiver fails\<close>
  have c1: "parseArgs (argv env_archive_error) = Inr ?vals"
    by (rule parse) (simp add: env_archive_error_def env_usage_def)
  have c2: "main_errors ?vals env_archive_error = []"
    by (rule valid) (simp_all add: env_archive_error_def env_usage_def)
  have c3: "archive_directory env_archive_error (toString (main_path ?vals env_archive_error))
            = ArchiveError ''EACCES''"
    by (simp add: env_archive_error_def)
  have c4: "archive_directory env_archive_error ''deploy'' = ArchiveError ''EACCES''"
    by (simp add: env_archive_error_def)
  from exit_code_of_a_run [of env_archive_error, THEN conjunct2, THEN conjunct2,
      THEN conjunct2, THEN conjunct2, THEN conjunct1] c1 c2 c3
  have c: "exit_code (main env_archive_error) = 1"
    by blast
  \<comment> \<open>the network fails\<close>
  have d0: "argv env_offline = ''--version'' # [''1.0.0'', ''--gameId'', ''my-game'']"
    by (simp add: env_offline_def env_usage_def)
  have d1: "parseArgs (argv env_offline) = Inr ?vals"
    by (rule parse) (simp add: env_offline_def env_usage_def)
  have d2: "main_errors ?vals env_offline = []"
    by (rule valid) (simp_all add: env_offline_def env_usage_def)
  have d3: "archive_directory env_offline (toString (main_path ?vals env_offline))
            = Archived [80, 75, 3, 4]"
    by (simp add: env_offline_def env_usage_def)
  have d4: "axios env_offline (main_request ?vals env_offline (classify ''--version'') [80, 75, 3, 4])
            = Rejected ''AxiosError: Network Error'' None"
    by (simp add: env_offline_def)
  from exit_code_of_a_run [of env_offline, THEN conjunct2, THEN conjunct2, THEN conjunct2,
      THEN conjunct2, THEN conjunct2, THEN conjunct2, THEN conjunct1] d0 d1 d2 d3 d4
  have d: "exit_code (main env_offline) = 1"
    by blast
  \<comment> \<open>the service refuses the token\<close>
  have f0: "argv env_unauthorized = ''--version'' # [''1.0.0'', ''--gameId'', ''my-game'']"
    by (simp add: env_unauthorized_def env_usage_def)
  have f1: "parseArgs (argv env_unauthorized) = Inr ?vals"
    by (rule parse) (simp add: env_unauthorized_def env_usage_def)
  have f2: "main_errors ?vals env_unauthorized = []"
    by (rule valid) (simp_all add: env_unauthorized_def env_usage_def)
  have f3: "archive_directory env_unauthorized (toString (main_path ?vals env_unauthorized))
            = Archived [80, 75, 3, 4]"
    by (simp add: env_unauthorized_def env_usage_def)
  have f4: "axios env_unauthorized
              (main_request ?vals env_unauthorized (classify ''--version'') [80, 75, 3, 4])
            = Rejected ''AxiosError: Request failed with status code 401''
                (Some \<lparr>res_status = 401, res_statusText = ''Unauthorized'', res_data = ''{}''\<rparr>)"
    by (simp add: env_unauthorized_def)
  from exit_code_of_a_run [of env_unauthorized, THEN conjunct2, THEN conjunct2,
      THEN conjunct2, THEN conjunct2, THEN conjunct2, THEN conjunct2, THEN conjunct1]
    f0 f1 f2 f3 f4
  have f: "exit_code (main env_unauthorized) = 1"
    by blast
  \<comment> \<open>the archive never settles\<close>
  have g0: "argv env_archive_pending = ''--version'' # [''1.0.0'', ''--gameId'', ''my-game'']"
    by (simp add: env_archive_pending_def env_usage_def)
  have g1: "parseArgs (argv env_archive_pending) = Inr ?vals"
    by (rule parse) (simp add: env_archive_pending_def env_usage_def)
  have g2: "main_errors ?vals env_archive_pending = []"
    by (rule valid) (simp_all add: env_archive_pending_def env_usage_def)
  have g3: "archive_directory env_archive_pending (toString (main_path ?vals env_archive_pending))
            = ArchivePending"
    by (simp add: env_archive_pending_def)
  have g4: "archive_directory env_archive_pending ''deploy'' = ArchivePending"
    by (simp add: env_archive_pending_def)
  from g0 g1 g2 g3
  have "\<exists>vals a rest. parseArgs (argv env_archive_pending) = Inr vals
         \<and> main_errors vals env_archive_pending = []
         \<and> argv env_archive_pending = a # rest
         \<and> (archive_directory env_archive_pending (toString (main_path vals env_archive_pending))
              = ArchivePending
            \<or> (\<exists>gameFile.
                  archive_directory env_archive_pending
                    (toString (main_path vals env_archive_pending)) = Archived gameFile
                  \<and> (axios env_archive_pending
                       (main_request vals env_archive_pending (classify a) gameFile) = Pending
                     \<or> (\<exists>res. axios env_archive_pending
                              (main_request vals env_archive_pending (classify a) gameFile)
                            = Resolved res \<and> res_status res = 200))))"
    by (intro exI [of _ ?vals] exI [of _ "''--version''"]
          exI [of _ "[''1.0.0'', ''--gameId'', ''my-game'']"]) simp
  with exit_code_of_a_run [of env_archive_pending, THEN conjunct1]
  have g: "exit_code (main env_archive_pending) = 0"
    by (rule iffD2)
  from d4 cl have d5: "axios env_offline (main_request ?vals env_offline ''patch'' [80, 75, 3, 4])
            = Rejected ''AxiosError: Network Error'' None"
    by simp
  from a b bare_invalid c c4 d d5 f g g4 show ?thesis by blast
qed

subsection \<open>The SDK version\<close>

text \<open>
  C8, as stated, fails on the empty string: with \<^verbatim>\<open>--sdkVersion=\<close> the option is supplied,
  the integer parse of its value is \<^verbatim>\<open>NaN\<close>, and the form carries 1, because
  \<^verbatim>\<open>args.values.sdkVersion || 1\<close> takes the empty string for an absent one.
\<close>

theorem empty_sdk_version_posts_one:
  "parseArgs (argv env_sdk_empty) =
     Inr [''version'' \<mapsto> ''1.0.0'', ''gameId'' \<mapsto> ''my-game'', ''sdkVersion'' \<mapsto> []]
   \<and> map (\<lambda>f. map_of f ''sdk_version'') (posted_forms (main env_sdk_empty))
       = [Some (FieldNum (Num 1))]
   \<and> (\<forall>engine. parseInt engine [] = NaN)"
proof -
  have "map (\<lambda>f. map_of f ''sdk_version'') (posted_forms (main env_sdk_empty))
       = [Some (FieldNum (Num 1))]"
    by (simp add: posted_forms_def env_sdk_empty_def usage_defs parse_defs run_defs parseInt_defs)
  moreover have "\<forall>engine. parseInt engine [] = NaN"
    by (simp add: parseInt_empty)
  ultimately show ?thesis using parse_sdk_empty by blast
qed

text \<open>
  C8, amended. In every form a run sends, the field \<^verbatim>\<open>sdk_version\<close> is 1 when
  \<^verbatim>\<open>--sdkVersion\<close> is not supplied or is supplied as the empty string, and it is the integer
  parse of the supplied string when that string is not empty: \<^verbatim>\<open>Number.parseInt\<close> of it,
  computed where the model computes it and the engine's own result elsewhere.
\<close>

theorem sdk_version_field:
  assumes "parseArgs (argv e) = Inr vals" and "f \<in> set (posted_forms (main e))"
  shows "(vals ''sdkVersion'' = None \<or> vals ''sdkVersion'' = Some [] \<longrightarrow>
            map_of f ''sdk_version'' = Some (FieldNum (Num 1)))
     \<and> (\<forall>s. vals ''sdkVersion'' = Some s \<and> s \<noteq> [] \<longrightarrow>
            map_of f ''sdk_version'' = Some (FieldNum (parseInt (Number_parseInt e) s)))"
proof -
  from posted_forms_main [OF assms] obtain a gameFile where
    f: "f = req_data (main_request vals e (classify a) gameFile)"
    by blast
  have s: "map_of f ''sdk_version'' =
     Some (FieldNum (parseInt (Number_parseInt e)
             (toString (js_or (jsv (vals ''sdkVersion'')) (JNum 1)))))"
    by (simp add: f main_request_def)
  have a: "vals ''sdkVersion'' = None \<or> vals ''sdkVersion'' = Some [] \<longrightarrow>
            map_of f ''sdk_version'' = Some (FieldNum (Num 1))"
    using parseInt_1 [of "Number_parseInt e"] by (auto simp: s js_or_def)
  have b: "\<forall>s. vals ''sdkVersion'' = Some s \<and> s \<noteq> [] \<longrightarrow>
            map_of f ''sdk_version'' = Some (FieldNum (parseInt (Number_parseInt e) s))"
    by (auto simp: s js_or_def)
  from a b show ?thesis by blast
qed

theorem sdk_version_field_witness:
  "parseArgs (argv env_sdk_two) =
     Inr [''version'' \<mapsto> ''1.0.0'', ''gameId'' \<mapsto> ''my-game'', ''sdkVersion'' \<mapsto> ''2'']
   \<and> map (\<lambda>f. map_of f ''sdk_version'') (posted_forms (main env_sdk_two))
       = [Some (FieldNum (Num 2))]
   \<and> parseArgs (argv env_usage) = Inr [''version'' \<mapsto> ''1.0.0'', ''gameId'' \<mapsto> ''my-game'']
   \<and> map (\<lambda>f. map_of f ''sdk_version'') (posted_forms (main env_usage))
       = [Some (FieldNum (Num 1))]
   \<and> parseArgs (argv env_sdk_nbsp) =
       Inr [''version'' \<mapsto> ''1.0.0'', ''gameId'' \<mapsto> ''my-game'',
            ''sdkVersion'' \<mapsto> [CHR 0xC2, CHR 0xA0, CHR ''5'']]
   \<and> map (\<lambda>f. map_of f ''sdk_version'') (posted_forms (main env_sdk_nbsp))
       = [Some (FieldNum (Num 5))]"
proof -
  let ?v3 = "[''version'' \<mapsto> ''1.0.0'', ''gameId'' \<mapsto> ''my-game'',
              ''sdkVersion'' \<mapsto> [CHR 0xC2, CHR 0xA0, CHR ''5'']]"
  let ?f3 = "req_data (main_request ?v3 env_sdk_nbsp ''major'' [80, 75, 3, 4])"
  have parse3: "parseArgs (argv env_sdk_nbsp) = Inr ?v3"
    by (simp add: env_sdk_nbsp_def env_usage_def parse_defs)
  have p3: "posted_forms (main env_sdk_nbsp) = [?f3]"
    by (simp add: posted_forms_def env_sdk_nbsp_def usage_defs parse_defs run_defs)
  have "?f3 \<in> set (posted_forms (main env_sdk_nbsp))"
    by (simp only: p3 list.set_intros)
  from sdk_version_field [OF parse3 this]
  have "map_of ?f3 ''sdk_version''
        = Some (FieldNum (parseInt (Number_parseInt env_sdk_nbsp) [CHR 0xC2, CHR 0xA0, CHR ''5'']))"
    by simp
  moreover have "parseInt (Number_parseInt env_sdk_nbsp) [CHR 0xC2, CHR 0xA0, CHR ''5''] = Num 5"
    by (simp add: parseInt_def isASCII_def env_sdk_nbsp_def Let_def)
  ultimately have c: "map_of ?f3 ''sdk_version'' = Some (FieldNum (Num 5))"
    by simp
  let ?v2 = "[''version'' \<mapsto> ''1.0.0'', ''gameId'' \<mapsto> ''my-game'', ''sdkVersion'' \<mapsto> ''2'']"
  let ?v1 = "[''version'' \<mapsto> ''1.0.0'', ''gameId'' \<mapsto> ''my-game'']"
  let ?f2 = "req_data (main_request ?v2 env_sdk_two ''major'' [80, 75, 3, 4])"
  let ?f1 = "req_data (main_request ?v1 env_usage ''patch'' [80, 75, 3, 4])"
  have p2: "posted_forms (main env_sdk_two) = [?f2]"
    by (simp add: posted_forms_def env_sdk_two_def usage_defs parse_defs run_defs)
  have p1: "posted_forms (main env_usage) = [?f1]"
    by (simp add: posted_forms_def usage_defs parse_defs run_defs)
  have "?f2 \<in> set (posted_forms (main env_sdk_two))"
    by (simp only: p2 list.set_intros)
  from sdk_version_field [OF parse_sdk_two this]
  have a: "map_of ?f2 ''sdk_version'' = Some (FieldNum (Num 2))"
    by (simp add: parseInt_2)
  have "?f1 \<in> set (posted_forms (main env_usage))"
    by (simp only: p1 list.set_intros)
  from sdk_version_field [OF parse_usage this]
  have b: "map_of ?f1 ''sdk_version'' = Some (FieldNum (Num 1))"
    by simp
  from a b c p1 p2 p3 parse_sdk_two parse_usage parse3 show ?thesis by simp
qed

end
